theory Spec2Isabelle
  imports Main
begin

section \<open>Go values used by the toolkit\<close>

text \<open>
  The package \<^verbatim>\<open>toolkit\<close> (file \<^verbatim>\<open>v2/tools.go\<close>) is a set of methods on the struct
  \<^verbatim>\<open>Tools\<close>. Go errors are values; the ones the package builds itself come from
  \<^verbatim>\<open>errors.New\<close> and \<^verbatim>\<open>fmt.Errorf\<close>. A call of \<^verbatim>\<open>fmt.Errorf\<close> is kept as its format
  string with its arguments, so that no rendering of \<^verbatim>\<open>%d\<close> or \<^verbatim>\<open>%q\<close> has to be modelled.
  Errors that come out of the operating system are an \<open>errno\<close>; any other error of a
  library is \<open>LibError\<close> with the text its \<^verbatim>\<open>Error()\<close> method gives.
\<close>

datatype fmt_arg = ArgInt int | ArgStr string

datatype errno = ENOENT | EEXIST | EISDIR | ENOTDIR | EACCES | ENOSPC | EIO | EINVAL

datatype error =
    ErrorsNew string
  | Errorf string "fmt_arg list"
  | EOF
  | OSError errno
  | LibError string

text \<open>A Go call either returns or panics; a panic carries the text of the runtime error.\<close>

datatype 'a outcome = Return 'a | Panic string

section \<open>Slugify\<close>

text \<open>
  \<^verbatim>\<open>Slugify\<close> (lines 174 to 186 of \<^verbatim>\<open>tools.go\<close>) lowercases its argument, replaces every match of the regular expression
  \<^verbatim>\<open>[^a-z\d]+\<close> by \<^verbatim>\<open>-\<close> and trims \<^verbatim>\<open>-\<close> from both ends. \<^verbatim>\<open>strings.ToLower\<close> and
  the \<^verbatim>\<open>regexp\<close> package work on runes (code points; a byte that is not valid UTF-8
  is read as U+FFFD by both), so a Go string is here the list of its runes.

  \<^verbatim>\<open>unicode.ToLower\<close> is written out for ASCII, where it adds 32 to the letters
  \<^verbatim>\<open>A\<close> to \<^verbatim>\<open>Z\<close>; beyond ASCII it consults the Unicode case tables of the standard
  library, which are the parameter \<open>tbl\<close>.
\<close>

type_synonym rune = nat

definition runes :: "string \<Rightarrow> rune list" where
  "runes s = map of_char s"

definition dash :: rune where
  "dash = 45"

definition unicode_ToLower :: "(rune \<Rightarrow> rune) \<Rightarrow> rune \<Rightarrow> rune" where
  "unicode_ToLower tbl r =
     (if r \<le> 127 then (if 65 \<le> r \<and> r \<le> 90 then r + 32 else r) else tbl r)"

definition strings_ToLower :: "(rune \<Rightarrow> rune) \<Rightarrow> rune list \<Rightarrow> rune list" where
  "strings_ToLower tbl s = map (unicode_ToLower tbl) s"

text \<open>The character class \<^verbatim>\<open>[a-z\d]\<close>; in Go's syntax \<^verbatim>\<open>\d\<close> is the ASCII digits.\<close>

definition slug_class :: "rune \<Rightarrow> bool" where
  "slug_class r = ((97 \<le> r \<and> r \<le> 122) \<or> (48 \<le> r \<and> r \<le> 57))"

text \<open>
  \<^verbatim>\<open>re.ReplaceAllString(src, "-")\<close> for \<^verbatim>\<open>re = [^a-z\d]+\<close>: matches are found from
  left to right, each the longest run of runes outside the class, and each is replaced
  by one \<^verbatim>\<open>-\<close>.
\<close>

function ReplaceAllString_dash :: "rune list \<Rightarrow> rune list" where
  "ReplaceAllString_dash [] = []"
| "ReplaceAllString_dash (c # cs) =
     (if slug_class c then c # ReplaceAllString_dash cs
      else dash # ReplaceAllString_dash (dropWhile (\<lambda>x. \<not> slug_class x) cs))"
  by pat_completeness auto
termination
  by (relation "measure length") (auto simp: le_imp_less_Suc length_dropWhile_le)

text \<open>\<^verbatim>\<open>strings.Trim(s, "-")\<close>: all leading and all trailing \<^verbatim>\<open>-\<close> are removed.\<close>

definition strings_Trim_dash :: "rune list \<Rightarrow> rune list" where
  "strings_Trim_dash s =
     rev (dropWhile (\<lambda>c. c = dash) (rev (dropWhile (\<lambda>c. c = dash) s)))"

definition Slugify :: "(rune \<Rightarrow> rune) \<Rightarrow> rune list \<Rightarrow> error + rune list" where
  "Slugify tbl s =
     (if s = [] then Inl (ErrorsNew ''empty string is not permitted'')
      else
        let slug = strings_Trim_dash (ReplaceAllString_dash (strings_ToLower tbl s))
        in if length slug = 0
           then Inl (ErrorsNew ''after removing characters, slug is zero length'')
           else Inr slug)"

text \<open>A run of two or more consecutive \<^verbatim>\<open>-\<close>.\<close>

fun has_dash_run :: "rune list \<Rightarrow> bool" where
  "has_dash_run (a # b # cs) = ((a = dash \<and> b = dash) \<or> has_dash_run (b # cs))"
| "has_dash_run _ = False"

section \<open>The world outside the program\<close>

text \<open>
  The methods read and write the file system and draw random numbers. Both are a
  component of an explicit \<open>world\<close> that every effectful function takes and returns.

  A node of the file system is the list of names that leads to it from the root, so the
  root is \<open>[]\<close>. The root always is a directory; \<open>dirs\<close> holds the other directories
  and \<open>files\<close> the contents of the regular files. \<open>noperm\<close> are directories in which
  no entry may be created, \<open>free_space\<close> is the number of bytes the device still takes.
  There are no symbolic links. The paths are Unix paths, separated by \<^verbatim>\<open>/\<close>.

  \<open>rand_src\<close> is the sequence of numbers that successive calls of
  \<^verbatim>\<open>rand.Prime(rand.Reader, 63)\<close> return and \<open>rand_pos\<close> counts the calls made so far.
  The source discards the error of \<^verbatim>\<open>rand.Prime\<close>; it can only come from a failing
  entropy reader, which is not modelled.
\<close>

type_synonym node = "string list"

record world =
  dirs :: "node set"
  files :: "node \<Rightarrow> string option"
  cwd :: node
  noperm :: "node set"
  free_space :: nat
  rand_src :: "nat \<Rightarrow> nat"
  rand_pos :: nat

definition is_dir :: "world \<Rightarrow> node \<Rightarrow> bool" where
  "is_dir w n = (n = [] \<or> n \<in> dirs w)"

definition exists_node :: "world \<Rightarrow> node \<Rightarrow> bool" where
  "exists_node w n = (is_dir w n \<or> files w n \<noteq> None)"

text \<open>\<^verbatim>\<open>strings.Split(p, "/")\<close>: the pieces between the separators, at least one.\<close>

fun split_path :: "string \<Rightarrow> string list" where
  "split_path [] = [[]]"
| "split_path (c # cs) =
     (if c = CHR ''/'' then [] # split_path cs
      else (case split_path cs of [] \<Rightarrow> [[c]] | seg # segs \<Rightarrow> (c # seg) # segs))"

definition step_node :: "node \<Rightarrow> string \<Rightarrow> node" where
  "step_node cur c =
     (if c = [] \<or> c = ''.'' then cur
      else if c = ''..'' then butlast cur
      else cur @ [c])"

text \<open>
  Path resolution as the kernel does it: every component is looked up in the node
  reached so far, which must be a directory. The node of the last component need not
  exist. Trailing separators are dropped first; \<open>must_be_dir\<close> remembers them.
\<close>

fun walk :: "world \<Rightarrow> node \<Rightarrow> string list \<Rightarrow> errno + node" where
  "walk w cur [] = Inr cur"
| "walk w cur (c # cs) =
     (if is_dir w cur then walk w (step_node cur c) cs
      else if files w cur \<noteq> None then Inl ENOTDIR
      else Inl ENOENT)"

definition components :: "string \<Rightarrow> string list" where
  "components p = rev (dropWhile (\<lambda>c. c = []) (rev (split_path p)))"

definition must_be_dir :: "string \<Rightarrow> bool" where
  "must_be_dir p = (p \<noteq> [] \<and> last p = CHR ''/'')"

definition resolve :: "world \<Rightarrow> string \<Rightarrow> errno + node" where
  "resolve w p =
     (if p = [] then Inl ENOENT
      else walk w (if hd p = CHR ''/'' then [] else cwd w) (components p))"

definition os_Stat :: "world \<Rightarrow> string \<Rightarrow> error option" where
  "os_Stat w p =
     (case resolve w p of
        Inl e \<Rightarrow> Some (OSError e)
      | Inr n \<Rightarrow>
          if is_dir w n then None
          else if files w n = None then Some (OSError ENOENT)
          else if must_be_dir p then Some (OSError ENOTDIR)
          else None)"

definition os_IsNotExist :: "error option \<Rightarrow> bool" where
  "os_IsNotExist err = (err = Some (OSError ENOENT))"

text \<open>
  \<^verbatim>\<open>os.Mkdir\<close> makes one directory: the parent of the new node has to be there.
\<close>

definition os_Mkdir :: "world \<Rightarrow> string \<Rightarrow> error option \<times> world" where
  "os_Mkdir w p =
     (case resolve w p of
        Inl e \<Rightarrow> (Some (OSError e), w)
      | Inr n \<Rightarrow>
          if exists_node w n then (Some (OSError EEXIST), w)
          else if \<not> is_dir w (butlast n) then (Some (OSError ENOENT), w)
          else if butlast n \<in> noperm w then (Some (OSError EACCES), w)
          else (None, w\<lparr>dirs := insert n (dirs w)\<rparr>))"

text \<open>
  \<^verbatim>\<open>os.Create\<close> opens with \<^verbatim>\<open>O_RDWR|O_CREATE|O_TRUNC\<close>: the file is created empty, or
  emptied when it is there. The result is the node of the open file.
\<close>

definition os_Create :: "world \<Rightarrow> string \<Rightarrow> (error + node) \<times> world" where
  "os_Create w p =
     (case resolve w p of
        Inl e \<Rightarrow> (Inl (OSError e), w)
      | Inr n \<Rightarrow>
          if is_dir w n \<or> must_be_dir p then (Inl (OSError EISDIR), w)
          else if files w n \<noteq> None then (Inr n, w\<lparr>files := (files w)(n \<mapsto> [])\<rparr>)
          else if \<not> is_dir w (butlast n) then (Inl (OSError ENOENT), w)
          else if butlast n \<in> noperm w then (Inl (OSError EACCES), w)
          else (Inr n, w\<lparr>files := (files w)(n \<mapsto> [])\<rparr>))"

text \<open>
  \<^verbatim>\<open>io.Copy(outfile, infile)\<close> with \<open>infile\<close> at its start: the bytes are written to
  the open file until the device is full. It returns the number of bytes written.
\<close>

definition io_Copy :: "world \<Rightarrow> node \<Rightarrow> string \<Rightarrow> (error + int) \<times> world" where
  "io_Copy w n bytes =
     (if length bytes \<le> free_space w
      then (Inr (int (length bytes)),
            w\<lparr>files := (files w)(n \<mapsto> bytes), free_space := free_space w - length bytes\<rparr>)
      else (Inl (OSError ENOSPC),
            w\<lparr>files := (files w)(n \<mapsto> take (free_space w) bytes), free_space := 0\<rparr>))"

subsection \<open>Package \<^verbatim>\<open>path/filepath\<close>\<close>

fun clean_push :: "bool \<Rightarrow> string list \<Rightarrow> string \<Rightarrow> string list" where
  "clean_push rooted st seg =
     (if seg = [] \<or> seg = ''.'' then st
      else if seg = ''..'' then
        (case st of
           [] \<Rightarrow> if rooted then [] else [''..'']
         | seg' # below \<Rightarrow> if seg' = ''..'' then ''..'' # seg' # below else below)
      else seg # st)"

fun join_slash :: "string list \<Rightarrow> string" where
  "join_slash [] = []"
| "join_slash [s] = s"
| "join_slash (s # t # ts) = s @ ''/'' @ join_slash (t # ts)"

text \<open>
  \<^verbatim>\<open>filepath.Clean\<close>: empty and \<^verbatim>\<open>.\<close> elements go, an inner \<^verbatim>\<open>..\<close> takes the element before
  it with it, \<^verbatim>\<open>..\<close> at the start of a rooted path goes; the empty result is \<^verbatim>\<open>.\<close>.
  The stack of elements is kept in reverse.
\<close>

definition filepath_Clean :: "string \<Rightarrow> string" where
  "filepath_Clean p =
     (if p = [] then ''.''
      else
        let rooted = (hd p = CHR ''/'');
            segs = rev (foldl (clean_push rooted) [] (split_path p))
        in if rooted then CHR ''/'' # join_slash segs
           else if segs = [] then ''.''
           else join_slash segs)"

text \<open>\<^verbatim>\<open>filepath.Join(a, b)\<close>: empty elements are ignored, the rest is joined and cleaned.\<close>

definition filepath_Join :: "string \<Rightarrow> string \<Rightarrow> string" where
  "filepath_Join a b =
     (if a \<noteq> [] then filepath_Clean (a @ ''/'' @ b)
      else if b \<noteq> [] then filepath_Clean b
      else [])"

text \<open>
  \<^verbatim>\<open>filepath.Ext\<close>: the suffix from the last dot of the last element, empty without a dot.
\<close>

definition filepath_Ext :: "string \<Rightarrow> string" where
  "filepath_Ext p =
     (let base_rev = takeWhile (\<lambda>c. c \<noteq> CHR ''/'') (rev p)
      in if CHR ''.'' \<in> set base_rev
         then CHR ''.'' # rev (takeWhile (\<lambda>c. c \<noteq> CHR ''.'') base_rev)
         else [])"

section \<open>Tools and RandomString\<close>

record Tools =
  MaxFileSize :: int
  AllowedFileTypes :: "string list"
  MaxJSONSize :: int
  AllowUnknownFields :: bool

definition randomStringSource :: string where
  "randomStringSource = ''abcdefghijklmnopqrstuwxyzABCDEFGHIJKLMNOPQRSTUWXYZ0123456789_+@''"

definition rand_Prime :: "world \<Rightarrow> nat \<times> world" where
  "rand_Prime w = (rand_src w (rand_pos w), w\<lparr>rand_pos := Suc (rand_pos w)\<rparr>)"

text \<open>
  The loop \<^verbatim>\<open>for i := range s\<close> of \<^verbatim>\<open>RandomString\<close>, with \<open>k\<close> the number of positions
  still to fill. \<^verbatim>\<open>p.Uint64()\<close> is the low 64 bits of the number drawn, and \<open>y\<close> is
  the length of the alphabet, so the index \<^verbatim>\<open>x%y\<close> is in range.
\<close>

fun RandomString_loop :: "nat \<Rightarrow> world \<Rightarrow> string \<times> world" where
  "RandomString_loop 0 w = ([], w)"
| "RandomString_loop (Suc k) w =
     (let (p, w1) = rand_Prime w;
          x = p mod 2 ^ 64;
          y = length randomStringSource;
          c = randomStringSource ! (x mod y);
          (s, w2) = RandomString_loop k w1
      in (c # s, w2))"

text \<open>\<^verbatim>\<open>make([]rune, n)\<close> panics when \<open>n\<close> is negative.\<close>

definition RandomString :: "int \<Rightarrow> world \<Rightarrow> string outcome \<times> world" where
  "RandomString n w =
     (if n < 0 then (Panic ''makeslice: len out of range'', w)
      else (let (s, w') = RandomString_loop (nat n) w in (Return s, w')))"

section \<open>The upload pipeline\<close>

text \<open>
  A \<^verbatim>\<open>multipart.FileHeader\<close> is the name the client sent and the bytes of the part.
  The part is held in memory or in a temporary file; \<open>OpenErr\<close>, \<open>ReadErr\<close> and
  \<open>SeekErr\<close> are the errors that opening, reading and seeking that file give, if any.
\<close>

record FileHeader =
  Filename :: string
  Content :: string
  OpenErr :: "error option"
  ReadErr :: "error option"
  SeekErr :: "error option"

record UploadedFile =
  NewFileName :: string
  OriginalFileName :: string
  FileSize :: int

text \<open>
  A request is what \<^verbatim>\<open>r.ParseMultipartForm(maxMemory)\<close> makes of it: an error, or the
  file headers of \<^verbatim>\<open>r.MultipartForm.File\<close>. That is a Go map from field names to
  header lists, whose iteration order is not specified; it is the list of its entries
  in the order in which \<^verbatim>\<open>range\<close> visits them. The record admits any outcome; the
  outcomes that the parser gives on what a client sent are those of \<open>client_request\<close>
  below.
\<close>

record Request =
  ParseMultipartForm :: "int \<Rightarrow> error + (string \<times> FileHeader list) list"

text \<open>
  Where the headers of a request come from. \<^verbatim>\<open>r.ParseMultipartForm\<close> reads the body with
  package \<^verbatim>\<open>mime/multipart\<close>, whose \<^verbatim>\<open>readForm\<close> asks every part for
  \<^verbatim>\<open>p.FileName()\<close>: the \<^verbatim>\<open>filename\<close> parameter of the part's \<^verbatim>\<open>Content-Disposition\<close>
  header as the client wrote it, passed through \<^verbatim>\<open>filepath.Base\<close> unless it is empty. A
  part whose file name is empty is a form value and no file; any other part becomes a
  \<^verbatim>\<open>FileHeader\<close> with that file name. \<open>client_request body\<close> is the request whose body
  holds the parts \<open>body\<close>, each with the name the client sent in \<open>Filename\<close>.

  \<^verbatim>\<open>filepath.Base\<close>: trailing separators are dropped and the last element is returned;
  \<^verbatim>\<open>.\<close> for the empty path and \<^verbatim>\<open>/\<close> for a path of separators only.
\<close>

definition filepath_Base :: "string \<Rightarrow> string" where
  "filepath_Base p =
     (if p = [] then ''.''
      else
        let q = rev (dropWhile (\<lambda>c. c = CHR ''/'') (rev p));
            b = rev (takeWhile (\<lambda>c. c \<noteq> CHR ''/'') (rev q))
        in if b = [] then ''/'' else b)"

definition multipart_FileName :: "string \<Rightarrow> string" where
  "multipart_FileName filename = (if filename = [] then [] else filepath_Base filename)"

definition multipart_readForm ::
  "(string \<times> FileHeader list) list \<Rightarrow> (string \<times> FileHeader list) list" where
  "multipart_readForm sent =
     map (\<lambda>(name, parts).
            (name,
             map (\<lambda>p. p\<lparr>Filename := multipart_FileName (Filename p)\<rparr>)
               (filter (\<lambda>p. multipart_FileName (Filename p) \<noteq> []) parts)))
       sent"

definition client_request ::
  "(int \<Rightarrow> error + (string \<times> FileHeader list) list) \<Rightarrow> Request" where
  "client_request body =
     \<lparr>ParseMultipartForm =
        (\<lambda>maxMemory. case body maxMemory of
                        Inl err \<Rightarrow> Inl err
                      | Inr sent \<Rightarrow> Inr (multipart_readForm sent))\<rparr>"

text \<open>
  The functions of the standard library whose tables are not written out:
  \<^verbatim>\<open>http.DetectContentType\<close> and \<^verbatim>\<open>strings.EqualFold\<close>.
\<close>

record stdlib =
  DetectContentType :: "string \<Rightarrow> string"
  EqualFold :: "string \<Rightarrow> string \<Rightarrow> bool"

text \<open>
  The local \<^verbatim>\<open>renameFile\<close>: \<^verbatim>\<open>true\<close>, or \<^verbatim>\<open>rename[0]\<close> when the variadic argument is
  given.
\<close>

definition rename_flag :: "bool list \<Rightarrow> bool" where
  "rename_flag rename = (if length rename > 0 then hd rename else True)"

text \<open>
  \<^verbatim>\<open>CreateDirIfNotExist\<close> (lines 160 to 171): \<^verbatim>\<open>os.Mkdir\<close> is called when \<^verbatim>\<open>os.Stat\<close> says
  that the path does not exist, and its error is returned.
\<close>

definition CreateDirIfNotExist :: "world \<Rightarrow> string \<Rightarrow> error option \<times> world" where
  "CreateDirIfNotExist w path =
     (if os_IsNotExist (os_Stat w path) then
        (case os_Mkdir w path of
           (Some err, w') \<Rightarrow> (Some err, w')
         | (None, w') \<Rightarrow> (None, w'))
      else (None, w))"

text \<open>
  \<^verbatim>\<open>buff := make([]byte, 512)\<close> followed by \<^verbatim>\<open>infile.Read(buff)\<close>: the buffer is zeroed
  and filled with the first bytes of the part; reading at the end of the part, so an
  empty part, is \<^verbatim>\<open>io.EOF\<close>.
\<close>

definition part_Read :: "FileHeader \<Rightarrow> error + string" where
  "part_Read hdr =
     (case ReadErr hdr of
        Some err \<Rightarrow> Inl err
      | None \<Rightarrow>
          if Content hdr = [] then Inl EOF
          else Inr (take 512 (Content hdr) @ replicate (512 - length (Content hdr)) (CHR 0x00)))"

text \<open>The loop over \<^verbatim>\<open>t.AllowedFileTypes\<close> that sets \<^verbatim>\<open>allowed\<close>.\<close>

definition type_allowed :: "stdlib \<Rightarrow> Tools \<Rightarrow> string \<Rightarrow> bool" where
  "type_allowed lib t fileType =
     (if length (AllowedFileTypes t) > 0
      then foldl (\<lambda>allowed x. if EqualFold lib fileType x then True else allowed)
             False (AllowedFileTypes t)
      else True)"

definition new_file_name :: "bool \<Rightarrow> FileHeader \<Rightarrow> world \<Rightarrow> string outcome \<times> world" where
  "new_file_name renameFile hdr w =
     (if renameFile then
        (case RandomString 25 w of
           (Panic msg, w') \<Rightarrow> (Panic msg, w')
         | (Return s, w') \<Rightarrow> (Return (s @ filepath_Ext (Filename hdr)), w'))
      else (Return (Filename hdr), w))"

text \<open>
  The function literal (lines 87 to 148) that \<^verbatim>\<open>UploadFiles\<close> calls for every header. It returns the pair
  of the source, the manifest and the error; \<^verbatim>\<open>nil\<close> is the empty list.
\<close>

definition upload_part ::
  "stdlib \<Rightarrow> Tools \<Rightarrow> string \<Rightarrow> bool \<Rightarrow> FileHeader \<Rightarrow> UploadedFile list \<Rightarrow> world
     \<Rightarrow> (UploadedFile list \<times> error option) outcome \<times> world" where
  "upload_part lib t uploadDir renameFile hdr uploadedFiles w =
     (case OpenErr hdr of
        Some err \<Rightarrow> (Return ([], Some err), w)
      | None \<Rightarrow>
     (case part_Read hdr of
        Inl err \<Rightarrow> (Return ([], Some err), w)
      | Inr buff \<Rightarrow>
     (if \<not> type_allowed lib t (DetectContentType lib buff)
      then (Return ([], Some (ErrorsNew ''uploaded file type is not permitted'')), w)
      else
     (case SeekErr hdr of
        Some err \<Rightarrow> (Return ([], Some err), w)
      | None \<Rightarrow>
     (case new_file_name renameFile hdr w of
        (Panic msg, w1) \<Rightarrow> (Panic msg, w1)
      | (Return name, w1) \<Rightarrow>
     (case os_Create w1 (filepath_Join uploadDir name) of
        (Inl err, w2) \<Rightarrow> (Return ([], Some err), w2)
      | (Inr outfile, w2) \<Rightarrow>
     (case io_Copy w2 outfile (Content hdr) of
        (Inl err, w3) \<Rightarrow> (Return ([], Some err), w3)
      | (Inr fileSize, w3) \<Rightarrow>
          (Return (uploadedFiles @
                     [\<lparr>NewFileName = name, OriginalFileName = Filename hdr,
                       FileSize = fileSize\<rparr>], None), w3))))))))"

text \<open>
  The inner loop \<^verbatim>\<open>for _, hdr := range fHEaders\<close> and the outer loop over the map. A
  loop returns from \<^verbatim>\<open>UploadFiles\<close> exactly when the function literal gave an error, with
  the manifest that the literal returned.
\<close>

fun upload_headers ::
  "stdlib \<Rightarrow> Tools \<Rightarrow> string \<Rightarrow> bool \<Rightarrow> FileHeader list \<Rightarrow> UploadedFile list \<Rightarrow> world
     \<Rightarrow> (UploadedFile list \<times> error option) outcome \<times> world" where
  "upload_headers lib t uploadDir renameFile [] uploadedFiles w =
     (Return (uploadedFiles, None), w)"
| "upload_headers lib t uploadDir renameFile (hdr # hdrs) uploadedFiles w =
     (case upload_part lib t uploadDir renameFile hdr uploadedFiles w of
        (Panic msg, w') \<Rightarrow> (Panic msg, w')
      | (Return (uploadedFiles', Some err), w') \<Rightarrow> (Return (uploadedFiles', Some err), w')
      | (Return (uploadedFiles', None), w') \<Rightarrow>
          upload_headers lib t uploadDir renameFile hdrs uploadedFiles' w')"

fun upload_fields ::
  "stdlib \<Rightarrow> Tools \<Rightarrow> string \<Rightarrow> bool \<Rightarrow> (string \<times> FileHeader list) list
     \<Rightarrow> UploadedFile list \<Rightarrow> world
     \<Rightarrow> (UploadedFile list \<times> error option) outcome \<times> world" where
  "upload_fields lib t uploadDir renameFile [] uploadedFiles w =
     (Return (uploadedFiles, None), w)"
| "upload_fields lib t uploadDir renameFile ((field, fHEaders) # rest) uploadedFiles w =
     (case upload_headers lib t uploadDir renameFile fHEaders uploadedFiles w of
        (Panic msg, w') \<Rightarrow> (Panic msg, w')
      | (Return (uploadedFiles', Some err), w') \<Rightarrow> (Return (uploadedFiles', Some err), w')
      | (Return (uploadedFiles', None), w') \<Rightarrow>
          upload_fields lib t uploadDir renameFile rest uploadedFiles' w')"

text \<open>
  \<^verbatim>\<open>UploadFiles\<close> (lines 63 to 157) has a pointer receiver and assigns to \<^verbatim>\<open>t.MaxFileSize\<close>, so it returns
  the \<open>Tools\<close> value as it is after the call. The variadic \<^verbatim>\<open>rename ...bool\<close> is a list.
\<close>

definition UploadFiles ::
  "stdlib \<Rightarrow> Tools \<Rightarrow> Request \<Rightarrow> string \<Rightarrow> bool list \<Rightarrow> world
     \<Rightarrow> (UploadedFile list \<times> error option) outcome \<times> Tools \<times> world" where
  "UploadFiles lib t r uploadDir rename w =
     (let renameFile = rename_flag rename;
          t1 = (if MaxFileSize t = 0 then t\<lparr>MaxFileSize := 1024 * 1024 * 1024\<rparr> else t)
      in case CreateDirIfNotExist w uploadDir of
           (Some err, w1) \<Rightarrow> (Return ([], Some err), t1, w1)
         | (None, w1) \<Rightarrow>
        (case ParseMultipartForm r (MaxFileSize t1) of
           Inl err \<Rightarrow> (Return ([], Some (ErrorsNew ''uploaded file is too big'')), t1, w1)
         | Inr form \<Rightarrow>
             (case upload_fields lib t1 uploadDir renameFile form [] w1 of
                (res, w2) \<Rightarrow> (res, t1, w2))))"

text \<open>
  \<^verbatim>\<open>UploadOneFile\<close> (lines 48 to 60) returns \<^verbatim>\<open>files[0]\<close>; indexing an empty slice is a run-time panic.
\<close>

definition UploadOneFile ::
  "stdlib \<Rightarrow> Tools \<Rightarrow> Request \<Rightarrow> string \<Rightarrow> bool list \<Rightarrow> world
     \<Rightarrow> (UploadedFile option \<times> error option) outcome \<times> Tools \<times> world" where
  "UploadOneFile lib t r uploadDir rename w =
     (let renameFile = rename_flag rename
      in case UploadFiles lib t r uploadDir [renameFile] w of
           (Panic msg, t', w') \<Rightarrow> (Panic msg, t', w')
         | (Return (ufs, Some err), t', w') \<Rightarrow> (Return (None, Some err), t', w')
         | (Return (ufs, None), t', w') \<Rightarrow>
             (case ufs of
                [] \<Rightarrow> (Panic ''index out of range [0] with length 0'', t', w')
              | f # _ \<Rightarrow> (Return (Some f, None), t', w')))"

section \<open>ReadJSON\<close>

text \<open>
  The errors of \<^verbatim>\<open>(*json.Decoder).Decode\<close> as the \<^verbatim>\<open>switch\<close> of \<^verbatim>\<open>ReadJSON\<close> tells them
  apart: a \<^verbatim>\<open>*json.SyntaxError\<close> with its offset, \<^verbatim>\<open>io.ErrUnexpectedEOF\<close>, a
  \<^verbatim>\<open>*json.UnmarshalTypeError\<close> with its field and offset, \<^verbatim>\<open>io.EOF\<close>, a
  \<^verbatim>\<open>*json.InvalidUnmarshalError\<close> with its text, and any other error with its text.
\<close>

datatype decode_error =
    DecSyntaxError int
  | DecUnexpectedEOF
  | DecUnmarshalTypeError string int
  | DecEOF
  | DecInvalidUnmarshalError string
  | DecOther string

text \<open>
  Package \<^verbatim>\<open>encoding/json\<close> is a parameter. \<open>NewDecoder maxBytes body\<close> is the decoder on
  the body capped by \<^verbatim>\<open>http.MaxBytesReader\<close>, \<open>Decode\<close> reads the next value of the
  stream into a target and gives the error or the value stored, and \<open>empty_struct\<close> is
  the target \<^verbatim>\<open>&struct{}{}\<close>.
\<close>

record ('s, 'tgt, 'v) json_lib =
  NewDecoder :: "int \<Rightarrow> string \<Rightarrow> 's"
  DisallowUnknownFields :: "'s \<Rightarrow> 's"
  Decode :: "'s \<Rightarrow> 'tgt \<Rightarrow> (decode_error + 'v) \<times> 's"
  empty_struct :: "'tgt"

definition has_prefix :: "string \<Rightarrow> string \<Rightarrow> bool" where
  "has_prefix s pre = (take (length pre) s = pre)"

text \<open>The \<^verbatim>\<open>switch\<close> on the error of the first \<^verbatim>\<open>Decode\<close>, case by case in its order.\<close>

fun decode_failure :: "int \<Rightarrow> decode_error \<Rightarrow> error" where
  "decode_failure maxBytes (DecSyntaxError offset) =
     Errorf ''body contains badly formed JSON at character %d'' [ArgInt offset]"
| "decode_failure maxBytes DecUnexpectedEOF =
     ErrorsNew ''body contains badly formed JSON''"
| "decode_failure maxBytes (DecUnmarshalTypeError field offset) =
     (if field \<noteq> []
      then Errorf ''body contains incorrect JSON type for field %q'' [ArgStr field]
      else Errorf ''body contains incorrect JSON type at characted %d'' [ArgInt offset])"
| "decode_failure maxBytes DecEOF = ErrorsNew ''body must not be empty''"
| "decode_failure maxBytes err =
     (let msg = (case err of DecInvalidUnmarshalError m \<Rightarrow> m | DecOther m \<Rightarrow> m | _ \<Rightarrow> [])
      in if has_prefix msg ''json: unknown field''
         then Errorf ''body contains unknown key %s''
                [ArgStr (drop (length ''json: unknown field'') msg)]
         else if msg = ''http: request body too large''
         then Errorf ''body must not be larged than %d bytes'' [ArgInt maxBytes]
         else (case err of
                 DecInvalidUnmarshalError m \<Rightarrow> Errorf ''error unmarshaling JSON %s'' [ArgStr m]
               | _ \<Rightarrow> LibError msg))"

text \<open>
  \<^verbatim>\<open>ReadJSON\<close> (lines 203 to 254) returns its error, the value the first \<^verbatim>\<open>Decode\<close> stored in \<^verbatim>\<open>data\<close>, and
  the \<open>Tools\<close> value of its pointer receiver as it is after the call.
\<close>

definition json_max_bytes :: "Tools \<Rightarrow> int" where
  "json_max_bytes t = (if MaxJSONSize t \<noteq> 0 then MaxJSONSize t else 1024 * 1024)"

text \<open>The decoder on the capped body, with unknown fields disallowed unless allowed.\<close>

definition body_decoder :: "('s, 'tgt, 'v) json_lib \<Rightarrow> Tools \<Rightarrow> string \<Rightarrow> 's" where
  "body_decoder J t body =
     (let dec = NewDecoder J (json_max_bytes t) body
      in if \<not> AllowUnknownFields t then DisallowUnknownFields J dec else dec)"

definition ReadJSON ::
  "('s, 'tgt, 'v) json_lib \<Rightarrow> Tools \<Rightarrow> string \<Rightarrow> 'tgt \<Rightarrow> error option \<times> 'v option \<times> Tools" where
  "ReadJSON J t body data =
     (case Decode J (body_decoder J t body) data of
        (Inl err, dec') \<Rightarrow> (Some (decode_failure (json_max_bytes t) err), None, t)
      | (Inr v, dec') \<Rightarrow>
          (case Decode J dec' (empty_struct J) of
             (Inl DecEOF, dec'') \<Rightarrow> (None, Some v, t)
           | (_, dec'') \<Rightarrow>
               (Some (ErrorsNew ''body must contain only one JSON value''), Some v, t)))"

text \<open>
  A decoder for running \<open>ReadJSON\<close> on a concrete stream: the stream is the list of
  what the successive calls of \<open>Decode\<close> find, and \<^verbatim>\<open>io.EOF\<close> when it is exhausted.
\<close>

definition stream_decoder :: "(decode_error + 'v) list \<Rightarrow> ((decode_error + 'v) list, unit, 'v) json_lib" where
  "stream_decoder docs =
     \<lparr>NewDecoder = (\<lambda>maxBytes body. docs),
      DisallowUnknownFields = (\<lambda>s. s),
      Decode = (\<lambda>s tgt. case s of [] \<Rightarrow> (Inl DecEOF, []) | d # ds \<Rightarrow> (d, ds)),
      empty_struct = ()\<rparr>"

section \<open>Notions used to state the properties\<close>

text \<open>
  The content type that the pipeline sniffs from a part, when it gets that far: the
  part opens and the first read gives its bytes.
\<close>

definition sniffed_type :: "stdlib \<Rightarrow> FileHeader \<Rightarrow> string option" where
  "sniffed_type lib hdr =
     (if OpenErr hdr \<noteq> None then None
      else (case part_Read hdr of
              Inl err \<Rightarrow> None
            | Inr buff \<Rightarrow> Some (DetectContentType lib buff)))"

text \<open>All headers of a form, in the order in which the nested \<^verbatim>\<open>range\<close> statements visit them.\<close>

definition form_headers :: "(string \<times> FileHeader list) list \<Rightarrow> FileHeader list" where
  "form_headers form = concat (map snd form)"

text \<open>
  A later world has the directories and the working directory of an earlier one, and at
  least its files.
\<close>

definition fs_grows :: "world \<Rightarrow> world \<Rightarrow> bool" where
  "fs_grows w w' =
     (dirs w' = dirs w \<and> cwd w' = cwd w \<and> (\<forall>n. files w n \<noteq> None \<longrightarrow> files w' n \<noteq> None))"





subsection \<open>Inputs for running the functions\<close>

text \<open>
  A world with the directories \<^verbatim>\<open>/srv\<close> and \<^verbatim>\<open>/srv/uploads\<close>, no files, and \<^verbatim>\<open>/srv\<close> as
  the working directory.
\<close>

definition srv_world :: world where
  "srv_world =
     \<lparr>dirs = {[''srv''], [''srv'', ''uploads'']}, files = (\<lambda>n. None), cwd = [''srv''],
      noperm = {}, free_space = 1000, rand_src = (\<lambda>i. 7 + 2 * i), rand_pos = 0\<rparr>"

definition ascii_lower :: "char \<Rightarrow> char" where
  "ascii_lower c =
     (case map_of (zip ''ABCDEFGHIJKLMNOPQRSTUVWXYZ'' ''abcdefghijklmnopqrstuvwxyz'') c of
        Some l \<Rightarrow> l
      | None \<Rightarrow> c)"

definition png_signature :: string where
  "png_signature =
     [CHR 0x89, CHR ''P'', CHR ''N'', CHR ''G'', CHR 0x0D, CHR 0x0A, CHR 0x1A, CHR 0x0A]"

text \<open>
  A library that knows the PNG signature and folds ASCII letters, as the real functions
  do on these inputs.
\<close>

definition png_lib :: stdlib where
  "png_lib =
     \<lparr>DetectContentType =
        (\<lambda>buff. if take 8 buff = png_signature
                then ''image/png'' else ''application/octet-stream''),
      EqualFold = (\<lambda>a b. map ascii_lower a = map ascii_lower b)\<rparr>"

definition png_part :: FileHeader where
  "png_part =
     \<lparr>Filename = ''img.png'', Content = png_signature @ ''x'',
      OpenErr = None, ReadErr = None, SeekErr = None\<rparr>"

definition blob_part :: FileHeader where
  "blob_part =
     \<lparr>Filename = ''notes.bin'', Content = ''hello'',
      OpenErr = None, ReadErr = None, SeekErr = None\<rparr>"

definition empty_part :: FileHeader where
  "empty_part =
     \<lparr>Filename = ''empty.png'', Content = [],
      OpenErr = None, ReadErr = None, SeekErr = None\<rparr>"

text \<open>A part as a client sends it, with a file name that climbs out of the directory.\<close>

definition climbing_part :: FileHeader where
  "climbing_part =
     \<lparr>Filename = ''../../etc/passwd'', Content = ''x'',
      OpenErr = None, ReadErr = None, SeekErr = None\<rparr>"

definition request_of :: "FileHeader list \<Rightarrow> Request" where
  "request_of hdrs = \<lparr>ParseMultipartForm = (\<lambda>maxMemory. Inr [(''file'', hdrs)])\<rparr>"

definition png_tools :: Tools where
  "png_tools =
     \<lparr>MaxFileSize = 0, AllowedFileTypes = [''image/jpeg'', ''image/png''],
      MaxJSONSize = 0, AllowUnknownFields = False\<rparr>"

section \<open>Properties\<close>

subsection \<open>The shape of a slug\<close>

lemma has_dash_run_iff:
  "has_dash_run xs \<longleftrightarrow> (\<exists>us vs. xs = us @ dash # dash # vs)"
proof (induction xs rule: has_dash_run.induct)
  case (1 a b cs)
  show ?case
  proof
    assume "has_dash_run (a # b # cs)"
    then consider "a = dash \<and> b = dash" | "has_dash_run (b # cs)" by auto
    then show "\<exists>us vs. a # b # cs = us @ dash # dash # vs"
    proof cases
      case 1
      then have "a # b # cs = [] @ dash # dash # cs" by simp
      then show ?thesis by blast
    next
      case 2
      with "1.IH" obtain us vs where "b # cs = us @ dash # dash # vs" by blast
      then have "a # b # cs = (a # us) @ dash # dash # vs" by simp
      then show ?thesis by blast
    qed
  next
    assume "\<exists>us vs. a # b # cs = us @ dash # dash # vs"
    then obtain us vs where eq: "a # b # cs = us @ dash # dash # vs" by blast
    show "has_dash_run (a # b # cs)"
    proof (cases us)
      case Nil
      with eq show ?thesis by simp
    next
      case (Cons u us')
      with eq have "b # cs = us' @ dash # dash # vs" by simp
      then have "has_dash_run (b # cs)" using "1.IH" by blast
      then show ?thesis by simp
    qed
  qed
qed (simp_all add: append_eq_Cons_conv)

lemma has_dash_run_rev: "has_dash_run (rev xs) = has_dash_run xs"
proof -
  have "has_dash_run ys \<Longrightarrow> has_dash_run (rev ys)" for ys
  proof -
    assume "has_dash_run ys"
    then obtain us vs where "ys = us @ dash # dash # vs"
      unfolding has_dash_run_iff by blast
    then have "rev ys = rev vs @ dash # dash # rev us" by simp
    then show "has_dash_run (rev ys)" unfolding has_dash_run_iff by blast
  qed
  from this [of xs] this [of "rev xs"] show ?thesis by auto
qed

lemma has_dash_run_dropWhile:
  "has_dash_run (dropWhile P xs) \<Longrightarrow> has_dash_run xs"
proof -
  assume "has_dash_run (dropWhile P xs)"
  then obtain us vs where "dropWhile P xs = us @ dash # dash # vs"
    unfolding has_dash_run_iff by blast
  then have "xs = (takeWhile P xs @ us) @ dash # dash # vs"
    by (metis append.assoc takeWhile_dropWhile_id)
  then show ?thesis unfolding has_dash_run_iff by blast
qed

lemma has_dash_run_Trim:
  "has_dash_run (strings_Trim_dash s) \<Longrightarrow> has_dash_run s"
  unfolding strings_Trim_dash_def
  by (auto simp: has_dash_run_rev dest!: has_dash_run_dropWhile)

lemma slug_class_not_dash: "slug_class c \<Longrightarrow> c \<noteq> dash"
  by (auto simp: slug_class_def dash_def)

lemma Replace_set:
  "c \<in> set (ReplaceAllString_dash s) \<Longrightarrow> slug_class c \<or> c = dash"
  by (induction s rule: ReplaceAllString_dash.induct) (auto split: if_splits)

lemma Replace_hd_class:
  "s \<noteq> [] \<Longrightarrow> slug_class (hd s) \<Longrightarrow> hd (ReplaceAllString_dash s) = hd s \<and> ReplaceAllString_dash s \<noteq> []"
  by (cases s) auto

lemma Replace_after_run:
  "ReplaceAllString_dash (dropWhile (\<lambda>x. \<not> slug_class x) cs) = [] \<or>
   hd (ReplaceAllString_dash (dropWhile (\<lambda>x. \<not> slug_class x) cs)) \<noteq> dash"
proof (cases "dropWhile (\<lambda>x. \<not> slug_class x) cs = []")
  case True
  then show ?thesis by (simp del: dropWhile_eq_Nil_conv)
next
  case False
  then have "slug_class (hd (dropWhile (\<lambda>x. \<not> slug_class x) cs))"
    using hd_dropWhile [of "\<lambda>x. \<not> slug_class x" cs] by simp
  with False show ?thesis
    using Replace_hd_class slug_class_not_dash by metis
qed

lemma has_dash_run_Cons:
  "has_dash_run (a # ys) \<longleftrightarrow> (ys \<noteq> [] \<and> a = dash \<and> hd ys = dash) \<or> has_dash_run ys"
  by (cases ys) auto

lemma Replace_no_run: "\<not> has_dash_run (ReplaceAllString_dash s)"
proof (induction s rule: ReplaceAllString_dash.induct)
  case 1
  then show ?case by simp
next
  case (2 c cs)
  show ?case
  proof (cases "slug_class c")
    case True
    with 2 show ?thesis
      by (simp add: has_dash_run_Cons slug_class_not_dash)
  next
    case False
    with 2 Replace_after_run [of cs] show ?thesis
      by (auto simp: has_dash_run_Cons)
  qed
qed

lemma Trim_set: "c \<in> set (strings_Trim_dash s) \<Longrightarrow> c \<in> set s"
  unfolding strings_Trim_dash_def by (metis set_dropWhileD set_rev)

lemma Trim_last: "strings_Trim_dash s \<noteq> [] \<Longrightarrow> last (strings_Trim_dash s) \<noteq> dash"
proof -
  let ?r = "dropWhile (\<lambda>c. c = dash) (rev (dropWhile (\<lambda>c. c = dash) s))"
  assume "strings_Trim_dash s \<noteq> []"
  then have ne: "?r \<noteq> []" by (simp add: strings_Trim_dash_def)
  then have "hd ?r \<noteq> dash" using hd_dropWhile [OF ne] by simp
  with ne show ?thesis by (simp add: strings_Trim_dash_def last_rev)
qed

lemma Trim_hd: "strings_Trim_dash s \<noteq> [] \<Longrightarrow> hd (strings_Trim_dash s) \<noteq> dash"
proof -
  let ?z = "dropWhile (\<lambda>c. c = dash) s"
  let ?t = "strings_Trim_dash s"
  assume ne: "?t \<noteq> []"
  have split: "?z = ?t @ rev (takeWhile (\<lambda>c. c = dash) (rev ?z))"
    unfolding strings_Trim_dash_def
    by (metis rev_append rev_rev_ident takeWhile_dropWhile_id)
  with ne have "?z \<noteq> []" by (metis append_is_Nil_conv)
  then have "hd ?z \<noteq> dash" using hd_dropWhile [of "\<lambda>c. c = dash" s] by blast
  moreover from split ne have "hd ?z = hd ?t" by (metis hd_append2)
  ultimately show ?thesis by simp
qed

lemma ToLower_fixes_slug_rune:
  "slug_class c \<or> c = dash \<Longrightarrow> unicode_ToLower tbl c = c"
  by (auto simp: slug_class_def dash_def unicode_ToLower_def)

text \<open>
  C8. Whenever \<open>Slugify\<close> succeeds, the slug it returns is fully lowercase (lowercasing
  it again changes nothing, as it is made of \<^verbatim>\<open>a\<close>-\<^verbatim>\<open>z\<close>, digits and \<^verbatim>\<open>-\<close> only), does not
  start or end with \<^verbatim>\<open>-\<close>, and has no run of two or more consecutive \<^verbatim>\<open>-\<close>;
  \<open>Slugify "now is the time" = "now-is-the-time"\<close>, and \<open>Slugify ""\<close> fails with the
  error for an empty input.
\<close>

theorem Slugify_slug_shape:
  "(Slugify tbl s = Inr slug \<longrightarrow>
      strings_ToLower tbl slug = slug \<and>
      (\<forall>c \<in> set slug. slug_class c \<or> c = dash) \<and>
      slug \<noteq> [] \<and> hd slug \<noteq> dash \<and> last slug \<noteq> dash \<and>
      \<not> has_dash_run slug) \<and>
   Slugify tbl (runes ''now is the time'') = Inr (runes ''now-is-the-time'') \<and>
   Slugify tbl [] = Inl (ErrorsNew ''empty string is not permitted'')"
proof (intro conjI impI)
  assume ok: "Slugify tbl s = Inr slug"
  define body where "body = ReplaceAllString_dash (strings_ToLower tbl s)"
  from ok have slug: "slug = strings_Trim_dash body" and ne: "slug \<noteq> []"
    by (auto simp: Slugify_def Let_def body_def split: if_splits)
  show "slug \<noteq> []" by (rule ne)
  show chars: "\<forall>c \<in> set slug. slug_class c \<or> c = dash"
    using Trim_set Replace_set unfolding slug body_def by blast
  show "strings_ToLower tbl slug = slug"
    unfolding strings_ToLower_def
    by (rule map_idI) (use chars ToLower_fixes_slug_rune in blast)
  show "hd slug \<noteq> dash" using ne Trim_hd unfolding slug by blast
  show "last slug \<noteq> dash" using ne Trim_last unfolding slug by blast
  show "\<not> has_dash_run slug"
    using has_dash_run_Trim Replace_no_run unfolding slug body_def by blast
next
  show "Slugify tbl (runes ''now is the time'') = Inr (runes ''now-is-the-time'')"
    by (simp add: Slugify_def runes_def strings_ToLower_def unicode_ToLower_def
        slug_class_def dash_def strings_Trim_dash_def)
next
  show "Slugify tbl [] = Inl (ErrorsNew ''empty string is not permitted'')"
    by (simp add: Slugify_def)
qed

theorem Slugify_slug_shape_witness:
  "Slugify (\<lambda>r. r) (runes ''Now is the time for all GOOD men! + fish & such 123'') =
     Inr (runes ''now-is-the-time-for-all-good-men-fish-such-123'') \<and>
   strings_ToLower (\<lambda>r. r) (runes ''now-is-the-time-for-all-good-men-fish-such-123'') =
     runes ''now-is-the-time-for-all-good-men-fish-such-123'' \<and>
   \<not> has_dash_run (runes ''now-is-the-time-for-all-good-men-fish-such-123'') \<and>
   hd (runes ''now-is-the-time-for-all-good-men-fish-such-123'') \<noteq> dash \<and>
   last (runes ''now-is-the-time-for-all-good-men-fish-such-123'') \<noteq> dash"
proof -
  have run: "Slugify (\<lambda>r. r) (runes ''Now is the time for all GOOD men! + fish & such 123'') =
     Inr (runes ''now-is-the-time-for-all-good-men-fish-such-123'')"
    by (simp add: Slugify_def runes_def strings_ToLower_def unicode_ToLower_def
        slug_class_def dash_def strings_Trim_dash_def)
  from Slugify_slug_shape [of "\<lambda>r. r"
      "runes ''Now is the time for all GOOD men! + fish & such 123''"
      "runes ''now-is-the-time-for-all-good-men-fish-such-123''"] run
  show ?thesis by blast
qed

subsection \<open>RandomString\<close>

lemma randomStringSource_length: "length randomStringSource = 63"
  by (simp add: randomStringSource_def)

lemma randomStringSource_distinct: "distinct randomStringSource"
  unfolding randomStringSource_def by code_simp

lemma randomStringSource_card: "card (set randomStringSource) = 63"
  using distinct_card [OF randomStringSource_distinct]
  by (simp add: randomStringSource_length)

lemma RandomString_loop_length:
  "RandomString_loop k w = (s, w') \<Longrightarrow> length s = k"
  by (induction k arbitrary: w s w')
     (auto simp: Let_def split: prod.splits)

lemma RandomString_loop_chars:
  "RandomString_loop k w = (s, w') \<Longrightarrow> set s \<subseteq> set randomStringSource"
proof (induction k arbitrary: w s w')
  case 0
  then show ?case by simp
next
  case (Suc k)
  have len: "0 < length randomStringSource" by (simp add: randomStringSource_length)
  from Suc.prems obtain p w1 s' where
    s: "s = randomStringSource ! ((p mod 2 ^ 64) mod length randomStringSource) # s'"
    and rest: "RandomString_loop k w1 = (s', w')"
    by (auto simp: Let_def split: prod.splits)
  have "randomStringSource ! ((p mod 2 ^ 64) mod length randomStringSource)
          \<in> set randomStringSource"
    using len by (intro nth_mem) simp
  with Suc.IH [OF rest] s show ?case by simp
qed

lemma RandomString_loop_world:
  "RandomString_loop k w = (s, w') \<Longrightarrow> w' = w\<lparr>rand_pos := rand_pos w + k\<rparr>"
proof (induction k arbitrary: w s w')
  case 0
  then show ?case by simp
next
  case (Suc k)
  from Suc.prems obtain s' where
    rest: "RandomString_loop k (w\<lparr>rand_pos := Suc (rand_pos w)\<rparr>) = (s', w')"
    by (auto simp: Let_def rand_Prime_def split: prod.splits)
  from Suc.IH [OF rest] show ?case by simp
qed

text \<open>
  C6, as the code has it. For every \<open>n \<ge> 0\<close>, \<open>RandomString n\<close> returns a string of
  length exactly \<open>n\<close> whose characters all are in \<open>randomStringSource\<close>; that fixed
  alphabet has 63 characters, all different (the letters \<^verbatim>\<open>v\<close> and \<^verbatim>\<open>V\<close> are not in it).
\<close>

theorem RandomString_length_alphabet:
  "0 \<le> n \<Longrightarrow>
     \<exists>s w'. RandomString n w = (Return s, w') \<and> int (length s) = n \<and>
       set s \<subseteq> set randomStringSource \<and> card (set randomStringSource) = 63"
proof -
  assume n: "0 \<le> n"
  obtain s w' where run: "RandomString_loop (nat n) w = (s, w')"
    by (cases "RandomString_loop (nat n) w")
  from n run have "RandomString n w = (Return s, w')" by (simp add: RandomString_def)
  moreover from run n have "int (length s) = n" by (simp add: RandomString_loop_length)
  moreover from run have "set s \<subseteq> set randomStringSource" by (rule RandomString_loop_chars)
  ultimately show ?thesis using randomStringSource_card by blast
qed

theorem RandomString_length_alphabet_witness:
  "(0::int) \<le> 3 \<and> fst (RandomString 3 srv_world) = Return ''hjl'' \<and>
   (\<exists>s w'. RandomString 3 srv_world = (Return s, w') \<and> int (length s) = 3 \<and>
       set s \<subseteq> set randomStringSource \<and> card (set randomStringSource) = 63)"
proof -
  have three: "nat 3 = Suc (Suc (Suc 0))" by simp
  have steps: "RandomString_loop (Suc (Suc (Suc 0))) srv_world =
          ([randomStringSource ! 7, randomStringSource ! 9, randomStringSource ! 11],
           srv_world\<lparr>rand_pos := Suc (Suc (Suc 0))\<rparr>)"
    by (simp add: srv_world_def rand_Prime_def randomStringSource_length)
  have chars: "[randomStringSource ! 7, randomStringSource ! 9, randomStringSource ! 11] = ''hjl''"
    by (simp add: randomStringSource_def)
  have loop: "RandomString_loop (nat 3) srv_world =
          (''hjl'', srv_world\<lparr>rand_pos := Suc (Suc (Suc 0))\<rparr>)"
    by (simp only: three steps chars)
  have "fst (RandomString 3 srv_world) = Return ''hjl''"
    by (simp only: RandomString_def loop) simp
  with RandomString_length_alphabet [of 3 srv_world] show ?thesis by simp
qed

text \<open>
  C6 as the specification words it asks for an alphabet of 64 characters; the alphabet
  of the code has one less.
\<close>

theorem RandomString_alphabet_size_counterexample:
  "\<not> (\<exists>s w'. RandomString 1 srv_world = (Return s, w') \<and> int (length s) = 1 \<and>
        set s \<subseteq> set randomStringSource \<and> card (set randomStringSource) = 64)"
  by (simp add: randomStringSource_card)

subsection \<open>The upload pipeline\<close>

lemma foldl_allowed:
  "foldl (\<lambda>allowed x. if P x then True else allowed) b xs = (b \<or> (\<exists>x\<in>set xs. P x))"
  by (induction xs arbitrary: b) auto

lemma type_allowed_iff:
  "type_allowed lib t ft \<longleftrightarrow>
     AllowedFileTypes t = [] \<or> (\<exists>x\<in>set (AllowedFileTypes t). EqualFold lib ft x)"
  by (auto simp: type_allowed_def foldl_allowed)

lemma RandomString_returns:
  "0 \<le> n \<Longrightarrow> \<exists>s. RandomString n w = (Return s, w\<lparr>rand_pos := rand_pos w + nat n\<rparr>)"
proof -
  assume n: "0 \<le> n"
  obtain s w' where run: "RandomString_loop (nat n) w = (s, w')"
    by (cases "RandomString_loop (nat n) w")
  from RandomString_loop_world [OF run] run n show ?thesis
    by (simp add: RandomString_def)
qed

lemma new_file_name_returns:
  "\<exists>name k. new_file_name rn hdr w = (Return name, w\<lparr>rand_pos := rand_pos w + k\<rparr>) \<and>
     (\<not> rn \<longrightarrow> name = Filename hdr)"
proof (cases rn)
  case True
  from RandomString_returns [of 25 w] obtain s where
    "RandomString 25 w = (Return s, w\<lparr>rand_pos := rand_pos w + nat 25\<rparr>)" by auto
  with True show ?thesis by (auto simp: new_file_name_def)
next
  case False
  have "w = w\<lparr>rand_pos := rand_pos w + 0\<rparr>" by simp
  with False show ?thesis unfolding new_file_name_def by (metis (full_types))
qed

text \<open>What the file system keeps from one world to a later one.\<close>

lemma fs_grows_refl: "fs_grows w w"
  by (simp add: fs_grows_def)

lemma fs_grows_trans: "fs_grows w w1 \<Longrightarrow> fs_grows w1 w2 \<Longrightarrow> fs_grows w w2"
  by (simp add: fs_grows_def)

lemma fs_grows_rand: "fs_grows w (w\<lparr>rand_pos := k\<rparr>)"
  by (simp add: fs_grows_def)

lemma is_dir_grows: "fs_grows w w' \<Longrightarrow> is_dir w' n = is_dir w n"
  by (simp add: fs_grows_def is_dir_def)

lemma walk_grows:
  "fs_grows w w' \<Longrightarrow> walk w cur cs = Inr n \<Longrightarrow> walk w' cur cs = Inr n"
  by (induction cs arbitrary: cur) (auto simp: is_dir_grows split: if_splits)

lemma resolve_grows:
  "fs_grows w w' \<Longrightarrow> resolve w p = Inr n \<Longrightarrow> resolve w' p = Inr n"
proof -
  assume g: "fs_grows w w'" and r: "resolve w p = Inr n"
  from g have c: "cwd w' = cwd w" by (simp add: fs_grows_def)
  from r c walk_grows [OF g] show ?thesis
    by (auto simp: resolve_def split: if_splits)
qed

lemma os_Stat_grows:
  assumes g: "fs_grows w w'" and st: "os_Stat w p = None"
  shows "os_Stat w' p = None"
proof -
  from st obtain n where r: "resolve w p = Inr n"
    by (auto simp: os_Stat_def split: sum.splits)
  with st have ex: "is_dir w n \<or> (files w n \<noteq> None \<and> \<not> must_be_dir p)"
    by (auto simp: os_Stat_def split: if_splits)
  from g r have r': "resolve w' p = Inr n" by (rule resolve_grows)
  from ex g have "is_dir w' n \<or> (files w' n \<noteq> None \<and> \<not> must_be_dir p)"
    by (auto simp: is_dir_grows fs_grows_def)
  with r' show ?thesis by (auto simp: os_Stat_def)
qed

lemma os_Create_effect:
  "os_Create w p = (Inr n, w') \<Longrightarrow>
     resolve w p = Inr n \<and> \<not> is_dir w n \<and> \<not> must_be_dir p \<and>
     w' = w\<lparr>files := (files w)(n \<mapsto> [])\<rparr>"
  by (auto simp: os_Create_def split: sum.splits if_splits)

lemma os_Create_failure: "os_Create w p = (Inl e, w') \<Longrightarrow> w' = w"
  by (auto simp: os_Create_def split: sum.splits if_splits)

lemma os_Create_grows: "os_Create w p = (r, w') \<Longrightarrow> fs_grows w w'"
  by (cases r) (auto simp: fs_grows_def dest!: os_Create_effect os_Create_failure)

lemma io_Copy_grows: "io_Copy w n bytes = (r, w') \<Longrightarrow> fs_grows w w' \<and> files w' n \<noteq> None"
  by (auto simp: io_Copy_def fs_grows_def split: if_splits)

lemma io_Copy_success:
  "io_Copy w n bytes = (Inr k, w') \<Longrightarrow> files w' n = Some bytes \<and> k = int (length bytes)"
  by (auto simp: io_Copy_def split: if_splits)

lemma upload_part_cases:
  assumes run: "upload_part lib t dir rn hdr ufs w = (res, w')"
  shows "fs_grows w w' \<and>
    ((\<exists>e. res = Return ([], Some e)) \<or>
     (\<exists>rec ft. res = Return (ufs @ [rec], None) \<and>
        sniffed_type lib hdr = Some ft \<and> type_allowed lib t ft \<and>
        OriginalFileName rec = Filename hdr \<and>
        (\<not> rn \<longrightarrow> NewFileName rec = Filename hdr) \<and>
        os_Stat w' (filepath_Join dir (NewFileName rec)) = None))"
proof -
  obtain name k where nf: "new_file_name rn hdr w = (Return name, w\<lparr>rand_pos := rand_pos w + k\<rparr>)"
    and nm: "\<not> rn \<longrightarrow> name = Filename hdr"
    using new_file_name_returns by blast
  let ?w1 = "w\<lparr>rand_pos := rand_pos w + k\<rparr>"
  have g1: "fs_grows w ?w1" by (rule fs_grows_rand)
  obtain c w2 where cr: "os_Create ?w1 (filepath_Join dir name) = (c, w2)"
    by (cases "os_Create ?w1 (filepath_Join dir name)")
  have g2: "fs_grows ?w1 w2" using cr by (rule os_Create_grows)
  show ?thesis
  proof (cases "OpenErr hdr = None \<and> (\<exists>buff. part_Read hdr = Inr buff \<and>
      type_allowed lib t (DetectContentType lib buff)) \<and> SeekErr hdr = None")
    case False
    with run have "res = Return ([], Some (the (snd (case res of Return x \<Rightarrow> x)))) \<and> w' = w"
      by (auto simp: upload_part_def split: option.splits sum.splits if_splits)
    then show ?thesis using fs_grows_refl by blast
  next
    case True
    then obtain buff where op: "OpenErr hdr = None" and rd: "part_Read hdr = Inr buff"
      and al: "type_allowed lib t (DetectContentType lib buff)" and sk: "SeekErr hdr = None"
      by blast
    have sn: "sniffed_type lib hdr = Some (DetectContentType lib buff)"
      using op rd by (simp add: sniffed_type_def)
    show ?thesis
    proof (cases c)
      case (Inl e)
      with run op rd al sk nf cr have "res = Return ([], Some e)" and "w' = w2"
        by (simp_all add: upload_part_def)
      with g1 g2 show ?thesis using fs_grows_trans by blast
    next
      case (Inr outfile)
      obtain cp w3 where co: "io_Copy w2 outfile (Content hdr) = (cp, w3)"
        by (cases "io_Copy w2 outfile (Content hdr)")
      from io_Copy_grows [OF co] have g3: "fs_grows w2 w3" and fl: "files w3 outfile \<noteq> None"
        by simp_all
      have g: "fs_grows w w3" using g1 g2 g3 fs_grows_trans by blast
      show ?thesis
      proof (cases cp)
        case (Inl e)
        with run op rd al sk nf cr Inr co have "res = Return ([], Some e)" and "w' = w3"
          by (simp_all add: upload_part_def)
        with g show ?thesis by blast
      next
        case size: (Inr fileSize)
        let ?rec = "\<lparr>NewFileName = name, OriginalFileName = Filename hdr, FileSize = fileSize\<rparr>"
        from run op rd al sk nf cr Inr co size
        have res: "res = Return (ufs @ [?rec], None)" and w': "w' = w3"
          by (simp_all add: upload_part_def)
        from cr Inr have rs: "resolve ?w1 (filepath_Join dir name) = Inr outfile"
          and nd: "\<not> must_be_dir (filepath_Join dir name)"
          by (auto dest: os_Create_effect)
        have "fs_grows ?w1 w3" using g2 g3 fs_grows_trans by blast
        from resolve_grows [OF this rs] fl nd
        have "os_Stat w3 (filepath_Join dir name) = None"
          by (auto simp: os_Stat_def)
        with res w' g sn al nm show ?thesis by simp
      qed
    qed
  qed
qed

lemma upload_part_error_nil:
  "upload_part lib t dir rn hdr ufs w = (Return (m, Some e), w') \<Longrightarrow> m = []"
  using upload_part_cases [of lib t dir rn hdr ufs w "Return (m, Some e)" w'] by auto

lemma upload_part_rejects:
  "sniffed_type lib hdr = Some ft \<Longrightarrow> \<not> type_allowed lib t ft \<Longrightarrow>
   upload_part lib t dir rn hdr ufs w =
     (Return ([], Some (ErrorsNew ''uploaded file type is not permitted'')), w)"
  by (auto simp: upload_part_def sniffed_type_def split: option.splits sum.splits if_splits)

lemma upload_part_empty:
  "OpenErr hdr = None \<Longrightarrow> ReadErr hdr = None \<Longrightarrow> Content hdr = [] \<Longrightarrow>
   upload_part lib t dir rn hdr ufs w = (Return ([], Some EOF), w)"
  by (simp add: upload_part_def part_Read_def)

lemma sniffed_type_nonempty: "sniffed_type lib hdr = Some ft \<Longrightarrow> Content hdr \<noteq> []"
  by (auto simp: sniffed_type_def part_Read_def split: option.splits if_splits)

lemma upload_headers_cases:
  "upload_headers lib t dir rn hdrs ufs w = (res, w') \<Longrightarrow>
   fs_grows w w' \<and>
   ((\<exists>e. res = Return ([], Some e)) \<or>
    (\<exists>recs. res = Return (ufs @ recs, None) \<and> length recs = length hdrs \<and>
       (\<forall>h\<in>set hdrs. \<exists>ft. sniffed_type lib h = Some ft \<and> type_allowed lib t ft) \<and>
       map OriginalFileName recs = map Filename hdrs \<and>
       (\<not> rn \<longrightarrow> map NewFileName recs = map Filename hdrs) \<and>
       (\<forall>r\<in>set recs. os_Stat w' (filepath_Join dir (NewFileName r)) = None)))"
proof (induction hdrs arbitrary: ufs w)
  case Nil
  then show ?case by (auto simp: fs_grows_refl)
next
  case (Cons h hs)
  obtain r1 w1 where p: "upload_part lib t dir rn h ufs w = (r1, w1)"
    by (cases "upload_part lib t dir rn h ufs w")
  from upload_part_cases [OF p] have g1: "fs_grows w w1" by simp
  from upload_part_cases [OF p] consider
    (err) e where "r1 = Return ([], Some e)"
  | (ok) rec ft where "r1 = Return (ufs @ [rec], None)" "sniffed_type lib h = Some ft"
      "type_allowed lib t ft" "OriginalFileName rec = Filename h"
      "\<not> rn \<longrightarrow> NewFileName rec = Filename h"
      "os_Stat w1 (filepath_Join dir (NewFileName rec)) = None"
    by blast
  then show ?case
  proof cases
    case err
    with Cons.prems p g1 show ?thesis by auto
  next
    case ok
    with Cons.prems p have rest: "upload_headers lib t dir rn hs (ufs @ [rec]) w1 = (res, w')"
      by simp
    from Cons.IH [OF rest] have g2: "fs_grows w1 w'" by simp
    from g1 g2 have g: "fs_grows w w'" by (rule fs_grows_trans)
    from Cons.IH [OF rest] consider
      (err2) e where "res = Return ([], Some e)"
    | (ok2) recs where "res = Return ((ufs @ [rec]) @ recs, None)" "length recs = length hs"
        "\<forall>h\<in>set hs. \<exists>ft. sniffed_type lib h = Some ft \<and> type_allowed lib t ft"
        "map OriginalFileName recs = map Filename hs"
        "\<not> rn \<longrightarrow> map NewFileName recs = map Filename hs"
        "\<forall>r\<in>set recs. os_Stat w' (filepath_Join dir (NewFileName r)) = None"
      by blast
    then show ?thesis
    proof cases
      case err2
      with g show ?thesis by blast
    next
      case ok2
      from ok(6) g2 have "os_Stat w' (filepath_Join dir (NewFileName rec)) = None"
        using os_Stat_grows by blast
      with ok ok2 have "res = Return (ufs @ (rec # recs), None) \<and>
         length (rec # recs) = length (h # hs) \<and>
         (\<forall>h\<in>set (h # hs). \<exists>ft. sniffed_type lib h = Some ft \<and> type_allowed lib t ft) \<and>
         map OriginalFileName (rec # recs) = map Filename (h # hs) \<and>
         (\<not> rn \<longrightarrow> map NewFileName (rec # recs) = map Filename (h # hs)) \<and>
         (\<forall>r\<in>set (rec # recs). os_Stat w' (filepath_Join dir (NewFileName r)) = None)"
        by simp
      with g show ?thesis by blast
    qed
  qed
qed

lemma upload_headers_append:
  "upload_headers lib t dir rn ps ufs w = (Return (m, None), w1) \<Longrightarrow>
   upload_headers lib t dir rn (ps @ rest) ufs w = upload_headers lib t dir rn rest m w1"
proof (induction ps arbitrary: ufs w)
  case Nil
  then show ?case by simp
next
  case (Cons h hs)
  obtain r1 w2 where p: "upload_part lib t dir rn h ufs w = (r1, w2)"
    by (cases "upload_part lib t dir rn h ufs w")
  from upload_part_cases [OF p] Cons.prems p obtain m1 where r1: "r1 = Return (m1, None)"
    by auto
  with Cons.prems p have "upload_headers lib t dir rn hs m1 w2 = (Return (m, None), w1)"
    by simp
  from Cons.IH [OF this] p r1 show ?case by simp
qed

lemma upload_fields_headers:
  "upload_fields lib t dir rn form ufs w =
   upload_headers lib t dir rn (form_headers form) ufs w"
proof (induction form arbitrary: ufs w)
  case Nil
  then show ?case by (simp add: form_headers_def)
next
  case (Cons fld rest)
  obtain name hs where fld: "fld = (name, hs)" by (cases fld)
  obtain r1 w1 where h: "upload_headers lib t dir rn hs ufs w = (r1, w1)"
    by (cases "upload_headers lib t dir rn hs ufs w")
  from upload_headers_cases [OF h] consider
    (err) e where "r1 = Return ([], Some e)" | (ok) m where "r1 = Return (m, None)"
    by blast
  then show ?case
  proof cases
    case err
    have "upload_headers lib t dir rn (hs @ form_headers rest) ufs w = (Return ([], Some e), w1)"
      using h err
    proof (induction hs arbitrary: ufs w)
      case Nil
      then show ?case by simp
    next
      case (Cons a as)
      then show ?case
        by (auto split: prod.splits outcome.splits option.splits)
    qed
    with h err fld show ?thesis by (simp add: form_headers_def)
  next
    case ok
    from upload_headers_append [of lib t dir rn hs ufs w m w1 "form_headers rest"] h ok
    have "upload_headers lib t dir rn (hs @ form_headers rest) ufs w =
          upload_headers lib t dir rn (form_headers rest) m w1" by simp
    with h ok fld Cons.IH show ?thesis by (simp add: form_headers_def)
  qed
qed

text \<open>The equations that evaluate a call on concrete inputs.\<close>

lemmas fs_eval = os_Stat_def os_IsNotExist_def os_Mkdir_def os_Create_def io_Copy_def
  resolve_def components_def is_dir_def exists_node_def step_node_def must_be_dir_def
  filepath_Join_def filepath_Clean_def CreateDirIfNotExist_def

lemmas upload_eval = UploadFiles_def rename_flag_def upload_part_def part_Read_def
  type_allowed_def new_file_name_def Let_def

lemmas input_eval = srv_world_def png_lib_def png_tools_def png_part_def png_signature_def
  blob_part_def
  empty_part_def climbing_part_def request_of_def ascii_lower_def

lemma UploadFiles_cases:
  assumes "UploadFiles lib t r dir rename w = (res, t', w')"
  shows "t' = (if MaxFileSize t = 0 then t\<lparr>MaxFileSize := 1024 * 1024 * 1024\<rparr> else t)"
    and "CreateDirIfNotExist w dir = (Some e, w1) \<Longrightarrow> res = Return ([], Some e) \<and> w' = w1"
    and "CreateDirIfNotExist w dir = (None, w1) \<Longrightarrow>
         ParseMultipartForm r (MaxFileSize t') = Inl e \<Longrightarrow>
         res = Return ([], Some (ErrorsNew ''uploaded file is too big'')) \<and> w' = w1"
    and "CreateDirIfNotExist w dir = (None, w1) \<Longrightarrow>
         ParseMultipartForm r (MaxFileSize t') = Inr form \<Longrightarrow>
         upload_headers lib t' dir (rename_flag rename) (form_headers form) [] w1 = (res, w')"
  using assms
  by (auto simp: UploadFiles_def Let_def upload_fields_headers
      split: prod.splits option.splits sum.splits if_splits)

lemma UploadFiles_result:
  assumes run: "UploadFiles lib t r dir rename w = (res, t', w')"
  shows "(\<exists>e. res = Return ([], Some e)) \<or>
     (\<exists>w1 form. CreateDirIfNotExist w dir = (None, w1) \<and>
        ParseMultipartForm r (MaxFileSize t') = Inr form \<and>
        upload_headers lib t' dir (rename_flag rename) (form_headers form) [] w1 = (res, w'))"
proof -
  obtain c w1 where cd: "CreateDirIfNotExist w dir = (c, w1)"
    by (cases "CreateDirIfNotExist w dir")
  show ?thesis
  proof (cases c)
    case (Some e)
    with UploadFiles_cases(2) [OF run] cd show ?thesis by blast
  next
    case None
    show ?thesis
    proof (cases "ParseMultipartForm r (MaxFileSize t')")
      case (Inl e)
      with UploadFiles_cases(3) [OF run] cd None show ?thesis by blast
    next
      case (Inr form)
      with UploadFiles_cases(4) [OF run] cd None show ?thesis by blast
    qed
  qed
qed

text \<open>
  C9. Whenever \<open>UploadFiles\<close> returns an error, the manifest it returns is empty
  (\<^verbatim>\<open>nil\<close>). The records \<open>recs\<close> of the parts \<open>ps\<close> that were written earlier in the
  same call, one for each of them, are not in it, though the file of each of them is
  still there in the world after the call: \<^verbatim>\<open>os.Stat\<close> finds it.
\<close>

theorem UploadFiles_error_manifest_nil:
  "UploadFiles lib t r dir rename w = (Return (m, Some e), t', w') \<Longrightarrow>
     m = [] \<and>
     (CreateDirIfNotExist w dir = (None, w1) \<and>
      ParseMultipartForm r (MaxFileSize t') = Inr form \<and>
      form_headers form = ps @ rest \<and>
      upload_headers lib t' dir (rename_flag rename) ps [] w1 = (Return (recs, None), w2)
      \<longrightarrow> length recs = length ps \<and>
          (\<forall>rec\<in>set recs. os_Stat w' (filepath_Join dir (NewFileName rec)) = None))"
proof -
  assume run: "UploadFiles lib t r dir rename w = (Return (m, Some e), t', w')"
  from UploadFiles_result [OF run] have nil: "m = []"
    by (auto dest: upload_headers_cases)
  have remain: "length recs = length ps \<and>
      (\<forall>rec\<in>set recs. os_Stat w' (filepath_Join dir (NewFileName rec)) = None)"
    if cd: "CreateDirIfNotExist w dir = (None, w1)"
    and pf: "ParseMultipartForm r (MaxFileSize t') = Inr form"
    and sp: "form_headers form = ps @ rest"
    and pre: "upload_headers lib t' dir (rename_flag rename) ps [] w1 = (Return (recs, None), w2)"
  proof -
    from UploadFiles_cases(4) [OF run cd pf] sp
    have all: "upload_headers lib t' dir (rename_flag rename) (ps @ rest) [] w1 =
          (Return (m, Some e), w')" by simp
    with upload_headers_append [OF pre, of rest]
    have tail: "upload_headers lib t' dir (rename_flag rename) rest recs w2 =
          (Return (m, Some e), w')" by simp
    from upload_headers_cases [OF tail] have g: "fs_grows w2 w'" by simp
    from upload_headers_cases [OF pre]
    have len: "length recs = length ps"
      and st: "\<forall>rec\<in>set recs. os_Stat w2 (filepath_Join dir (NewFileName rec)) = None"
      by auto
    from st g have "\<forall>rec\<in>set recs. os_Stat w' (filepath_Join dir (NewFileName rec)) = None"
      using os_Stat_grows by blast
    with len show ?thesis by simp
  qed
  from nil remain show ?thesis by blast
qed

theorem UploadFiles_error_manifest_nil_witness:
  "UploadFiles png_lib png_tools (request_of [png_part, blob_part]) ''uploads'' [False] srv_world =
     (Return ([], Some (ErrorsNew ''uploaded file type is not permitted'')),
      png_tools\<lparr>MaxFileSize := 1073741824\<rparr>,
      srv_world\<lparr>files := (files srv_world)([''srv'', ''uploads'', ''img.png''] \<mapsto> Content png_part),
                free_space := 991\<rparr>) \<and>
   os_Stat (srv_world\<lparr>files := (files srv_world)([''srv'', ''uploads'', ''img.png''] \<mapsto> Content png_part),
                free_space := 991\<rparr>) (filepath_Join ''uploads'' ''img.png'') = None"
proof -
  let ?T = "png_tools\<lparr>MaxFileSize := 1073741824\<rparr>"
  let ?W = "srv_world\<lparr>files := (files srv_world)([''srv'', ''uploads'', ''img.png''] \<mapsto> Content png_part),
                free_space := 991\<rparr>"
  let ?rec = "\<lparr>NewFileName = ''img.png'', OriginalFileName = ''img.png'', FileSize = 9\<rparr>"
  have run: "UploadFiles png_lib png_tools (request_of [png_part, blob_part]) ''uploads'' [False] srv_world =
     (Return ([], Some (ErrorsNew ''uploaded file type is not permitted'')), ?T, ?W)"
    by (simp add: fs_eval upload_eval input_eval)
  have cd: "CreateDirIfNotExist srv_world ''uploads'' = (None, srv_world)"
    by (simp add: fs_eval input_eval)
  have pf: "ParseMultipartForm (request_of [png_part, blob_part]) (MaxFileSize ?T) =
      Inr [(''file'', [png_part, blob_part])]"
    by (simp add: request_of_def)
  have sp: "form_headers [(''file'', [png_part, blob_part])] = [png_part] @ [blob_part]"
    by (simp add: form_headers_def)
  have pre: "upload_headers png_lib ?T ''uploads'' (rename_flag [False]) [png_part] [] srv_world =
      (Return ([?rec], None), ?W)"
    by (simp add: fs_eval upload_eval input_eval)
  from UploadFiles_error_manifest_nil [OF run, of srv_world "[(''file'', [png_part, blob_part])]"
      "[png_part]" "[blob_part]" "[?rec]" ?W] cd pf sp pre
  have "os_Stat ?W (filepath_Join ''uploads'' ''img.png'') = None" by simp
  with run show ?thesis by simp
qed

text \<open>
  C2. Let the allow-list be non-empty and let \<open>h\<close> be a part whose sniffed type \<open>ft\<close>
  matches no entry of the list under \<^verbatim>\<open>strings.EqualFold\<close>. A call with \<open>h\<close> among its
  parts never succeeds: it returns an error and the empty manifest. When the pipeline
  gets to \<open>h\<close>, the parts \<open>ps\<close> before it having been stored, the call ends there with
  the error \<^verbatim>\<open>uploaded file type is not permitted\<close>: the part is not skipped, the
  parts after it are not looked at, and the records of \<open>ps\<close> are not returned. With an
  empty allow-list every sniffed type is allowed.
\<close>

theorem UploadFiles_disallowed_type_aborts:
  assumes list: "AllowedFileTypes t \<noteq> []"
    and sniff: "sniffed_type lib h = Some ft"
    and nomatch: "\<not> (\<exists>x\<in>set (AllowedFileTypes t). EqualFold lib ft x)"
    and run: "UploadFiles lib t r dir rename w = (res, t', w')"
    and pf: "ParseMultipartForm r (MaxFileSize t') = Inr form"
  shows "(h \<in> set (form_headers form) \<longrightarrow> (\<exists>e. res = Return ([], Some e))) \<and>
     (CreateDirIfNotExist w dir = (None, w1) \<and> form_headers form = ps @ h # rest \<and>
      upload_headers lib t' dir (rename_flag rename) ps [] w1 = (Return (recs, None), w2)
      \<longrightarrow> res = Return ([], Some (ErrorsNew ''uploaded file type is not permitted'')) \<and>
          w' = w2) \<and>
     type_allowed lib (t\<lparr>AllowedFileTypes := []\<rparr>) ft"
proof -
  from UploadFiles_cases(1) [OF run] have same: "AllowedFileTypes t' = AllowedFileTypes t"
    by (simp split: if_splits)
  with list nomatch have bad: "\<not> type_allowed lib t' ft"
    by (simp add: type_allowed_iff)
  have never: "\<exists>e. res = Return ([], Some e)" if mem: "h \<in> set (form_headers form)"
  proof -
    from UploadFiles_result [OF run] show ?thesis
    proof
      assume "\<exists>e. res = Return ([], Some e)"
      then show ?thesis .
    next
      assume "\<exists>w1 form. CreateDirIfNotExist w dir = (None, w1) \<and>
        ParseMultipartForm r (MaxFileSize t') = Inr form \<and>
        upload_headers lib t' dir (rename_flag rename) (form_headers form) [] w1 = (res, w')"
      with pf obtain w1 where
        "upload_headers lib t' dir (rename_flag rename) (form_headers form) [] w1 = (res, w')"
        by auto
      from upload_headers_cases [OF this] mem sniff bad show ?thesis by auto
    qed
  qed
  have exact: "res = Return ([], Some (ErrorsNew ''uploaded file type is not permitted'')) \<and> w' = w2"
    if cd: "CreateDirIfNotExist w dir = (None, w1)"
    and sp: "form_headers form = ps @ h # rest"
    and pre: "upload_headers lib t' dir (rename_flag rename) ps [] w1 = (Return (recs, None), w2)"
  proof -
    from UploadFiles_cases(4) [OF run cd pf] sp
    have "upload_headers lib t' dir (rename_flag rename) (ps @ h # rest) [] w1 = (res, w')"
      by simp
    with upload_headers_append [OF pre, of "h # rest"]
    have "upload_headers lib t' dir (rename_flag rename) (h # rest) recs w2 = (res, w')"
      by simp
    with upload_part_rejects [OF sniff bad] show ?thesis by simp
  qed
  have "type_allowed lib (t\<lparr>AllowedFileTypes := []\<rparr>) ft"
    by (simp add: type_allowed_def)
  with never exact show ?thesis by blast
qed

theorem UploadFiles_disallowed_type_aborts_witness:
  "AllowedFileTypes png_tools \<noteq> [] \<and>
   sniffed_type png_lib blob_part = Some ''application/octet-stream'' \<and>
   \<not> (\<exists>x\<in>set (AllowedFileTypes png_tools). EqualFold png_lib ''application/octet-stream'' x) \<and>
   UploadFiles png_lib png_tools (request_of [png_part, blob_part, png_part]) ''uploads'' [False]
       srv_world =
     (Return ([], Some (ErrorsNew ''uploaded file type is not permitted'')),
      png_tools\<lparr>MaxFileSize := 1073741824\<rparr>,
      srv_world\<lparr>files := (files srv_world)([''srv'', ''uploads'', ''img.png''] \<mapsto> Content png_part),
                free_space := 991\<rparr>) \<and>
   type_allowed png_lib (png_tools\<lparr>AllowedFileTypes := []\<rparr>) ''application/octet-stream''"
proof -
  let ?T = "png_tools\<lparr>MaxFileSize := 1073741824\<rparr>"
  let ?W = "srv_world\<lparr>files := (files srv_world)([''srv'', ''uploads'', ''img.png''] \<mapsto> Content png_part),
                free_space := 991\<rparr>"
  let ?form = "[(''file'', [png_part, blob_part, png_part])]"
  let ?rec = "\<lparr>NewFileName = ''img.png'', OriginalFileName = ''img.png'', FileSize = 9\<rparr>"
  obtain res t' w' where
    run: "UploadFiles png_lib png_tools (request_of [png_part, blob_part, png_part]) ''uploads''
            [False] srv_world = (res, t', w')"
    by (cases "UploadFiles png_lib png_tools (request_of [png_part, blob_part, png_part])
                 ''uploads'' [False] srv_world")
  from UploadFiles_cases(1) [OF run] have t': "t' = ?T" by (simp add: png_tools_def)
  have list: "AllowedFileTypes png_tools \<noteq> []" by (simp add: png_tools_def)
  have sniff: "sniffed_type png_lib blob_part = Some ''application/octet-stream''"
    by (simp add: sniffed_type_def part_Read_def input_eval)
  have nomatch: "\<not> (\<exists>x\<in>set (AllowedFileTypes png_tools).
      EqualFold png_lib ''application/octet-stream'' x)"
    by (simp add: input_eval)
  have pf: "ParseMultipartForm (request_of [png_part, blob_part, png_part]) (MaxFileSize t') =
      Inr ?form"
    by (simp add: request_of_def)
  have cd: "CreateDirIfNotExist srv_world ''uploads'' = (None, srv_world)"
    by (simp add: fs_eval input_eval)
  have sp: "form_headers ?form = [png_part] @ blob_part # [png_part]"
    by (simp add: form_headers_def)
  have pre: "upload_headers png_lib t' ''uploads'' (rename_flag [False]) [png_part] [] srv_world =
      (Return ([?rec], None), ?W)"
    unfolding t' by (simp add: fs_eval upload_eval input_eval)
  from UploadFiles_disallowed_type_aborts [OF list sniff nomatch run pf,
      of srv_world "[png_part]" "[png_part]" "[?rec]" ?W] cd sp pre
  have "res = Return ([], Some (ErrorsNew ''uploaded file type is not permitted'')) \<and> w' = ?W"
    and "type_allowed png_lib (png_tools\<lparr>AllowedFileTypes := []\<rparr>) ''application/octet-stream''"
    by blast+
  with run t' list sniff nomatch show ?thesis by simp
qed

text \<open>
  C10. A call with a zero-byte part \<open>h\<close> among its parts never succeeds: it returns an
  error and the empty manifest. When the pipeline gets to \<open>h\<close> and opens it, the first
  read of up to 512 bytes is at the end of the part, and the call ends with that
  \<^verbatim>\<open>io.EOF\<close> as its error.
\<close>

theorem UploadFiles_empty_part_fails:
  assumes empty: "Content h = []"
    and run: "UploadFiles lib t r dir rename w = (res, t', w')"
    and pf: "ParseMultipartForm r (MaxFileSize t') = Inr form"
  shows "(h \<in> set (form_headers form) \<longrightarrow> (\<exists>e. res = Return ([], Some e))) \<and>
     (OpenErr h = None \<and> ReadErr h = None \<and>
      CreateDirIfNotExist w dir = (None, w1) \<and> form_headers form = ps @ h # rest \<and>
      upload_headers lib t' dir (rename_flag rename) ps [] w1 = (Return (recs, None), w2)
      \<longrightarrow> res = Return ([], Some EOF) \<and> w' = w2)"
proof -
  have never: "\<exists>e. res = Return ([], Some e)" if mem: "h \<in> set (form_headers form)"
  proof -
    from UploadFiles_result [OF run] show ?thesis
    proof
      assume "\<exists>e. res = Return ([], Some e)"
      then show ?thesis .
    next
      assume "\<exists>w1 form. CreateDirIfNotExist w dir = (None, w1) \<and>
        ParseMultipartForm r (MaxFileSize t') = Inr form \<and>
        upload_headers lib t' dir (rename_flag rename) (form_headers form) [] w1 = (res, w')"
      with pf obtain w1 where
        "upload_headers lib t' dir (rename_flag rename) (form_headers form) [] w1 = (res, w')"
        by auto
      from upload_headers_cases [OF this] mem empty show ?thesis
        by (auto dest: sniffed_type_nonempty)
    qed
  qed
  have exact: "res = Return ([], Some EOF) \<and> w' = w2"
    if op: "OpenErr h = None" and rd: "ReadErr h = None"
    and cd: "CreateDirIfNotExist w dir = (None, w1)"
    and sp: "form_headers form = ps @ h # rest"
    and pre: "upload_headers lib t' dir (rename_flag rename) ps [] w1 = (Return (recs, None), w2)"
  proof -
    from UploadFiles_cases(4) [OF run cd pf] sp
    have "upload_headers lib t' dir (rename_flag rename) (ps @ h # rest) [] w1 = (res, w')"
      by simp
    with upload_headers_append [OF pre, of "h # rest"]
    have "upload_headers lib t' dir (rename_flag rename) (h # rest) recs w2 = (res, w')"
      by simp
    with upload_part_empty [OF op rd empty] show ?thesis by simp
  qed
  from never exact show ?thesis by blast
qed

theorem UploadFiles_empty_part_fails_witness:
  "Content empty_part = [] \<and>
   UploadFiles png_lib png_tools (request_of [png_part, empty_part]) ''uploads'' [False] srv_world =
     (Return ([], Some EOF),
      png_tools\<lparr>MaxFileSize := 1073741824\<rparr>,
      srv_world\<lparr>files := (files srv_world)([''srv'', ''uploads'', ''img.png''] \<mapsto> Content png_part),
                free_space := 991\<rparr>)"
proof -
  let ?T = "png_tools\<lparr>MaxFileSize := 1073741824\<rparr>"
  let ?W = "srv_world\<lparr>files := (files srv_world)([''srv'', ''uploads'', ''img.png''] \<mapsto> Content png_part),
                free_space := 991\<rparr>"
  let ?form = "[(''file'', [png_part, empty_part])]"
  let ?rec = "\<lparr>NewFileName = ''img.png'', OriginalFileName = ''img.png'', FileSize = 9\<rparr>"
  obtain res t' w' where
    run: "UploadFiles png_lib png_tools (request_of [png_part, empty_part]) ''uploads''
            [False] srv_world = (res, t', w')"
    by (cases "UploadFiles png_lib png_tools (request_of [png_part, empty_part])
                 ''uploads'' [False] srv_world")
  from UploadFiles_cases(1) [OF run] have t': "t' = ?T" by (simp add: png_tools_def)
  have empty: "Content empty_part = []" by (simp add: empty_part_def)
  have faults: "OpenErr empty_part = None" "ReadErr empty_part = None"
    by (simp_all add: empty_part_def)
  have pf: "ParseMultipartForm (request_of [png_part, empty_part]) (MaxFileSize t') = Inr ?form"
    by (simp add: request_of_def)
  have cd: "CreateDirIfNotExist srv_world ''uploads'' = (None, srv_world)"
    by (simp add: fs_eval input_eval)
  have sp: "form_headers ?form = [png_part] @ empty_part # []"
    by (simp add: form_headers_def)
  have pre: "upload_headers png_lib t' ''uploads'' (rename_flag [False]) [png_part] [] srv_world =
      (Return ([?rec], None), ?W)"
    unfolding t' by (simp add: fs_eval upload_eval input_eval)
  from UploadFiles_empty_part_fails [OF empty run pf,
      of srv_world "[png_part]" "[]" "[?rec]" ?W] faults cd sp pre
  have "res = Return ([], Some EOF) \<and> w' = ?W" by blast
  with run t' empty show ?thesis by simp
qed

text \<open>
  C5 asks for the intermediate path segments to be created. With \<^verbatim>\<open>a\<close> absent from the
  working directory, \<open>CreateDirIfNotExist\<close> on \<^verbatim>\<open>a/b\<close> fails with \<^verbatim>\<open>ENOENT\<close> from
  \<^verbatim>\<open>os.Mkdir\<close> and creates nothing, and \<open>UploadFiles\<close> returns that error.
\<close>

theorem CreateDirIfNotExist_missing_parent:
  "CreateDirIfNotExist srv_world ''a/b'' = (Some (OSError ENOENT), srv_world) \<and>
   fst (UploadFiles lib t r ''a/b'' rename srv_world) = Return ([], Some (OSError ENOENT)) \<and>
   snd (snd (UploadFiles lib t r ''a/b'' rename srv_world)) = srv_world"
  by (simp add: fs_eval upload_eval srv_world_def)

lemma UploadOneFile_first_entry:
  "UploadFiles lib t r dir [rename_flag rename] w = (Return (f # fs, None), t', w') \<Longrightarrow>
   UploadOneFile lib t r dir rename w = (Return (Some f, None), t', w')"
  by (simp add: UploadOneFile_def)

lemma UploadOneFile_error:
  "UploadFiles lib t r dir [rename_flag rename] w = (Return (fs, Some e), t', w') \<Longrightarrow>
   UploadOneFile lib t r dir rename w = (Return (None, Some e), t', w')"
  by (simp add: UploadOneFile_def)

text \<open>
  C1 asks for an error when the manifest is empty. On a request without any file part
  \<open>UploadFiles\<close> returns the empty manifest and no error, and \<open>UploadOneFile\<close> then
  indexes it: the call panics.
\<close>

theorem UploadOneFile_no_file_panics:
  "fst (UploadOneFile lib t \<lparr>ParseMultipartForm = (\<lambda>maxMemory. Inr [])\<rparr> ''uploads'' rename
          srv_world) =
     Panic ''index out of range [0] with length 0''"
  by (simp add: UploadOneFile_def fs_eval upload_eval srv_world_def)

subsection \<open>The configuration and ReadJSON\<close>

text \<open>
  C7, as the code has it. \<open>ReadJSON\<close> leaves the \<open>Tools\<close> value as it was.
  \<open>UploadFiles\<close> leaves \<open>AllowedFileTypes\<close>, \<open>MaxJSONSize\<close> and \<open>AllowUnknownFields\<close>
  as they were, and \<open>MaxFileSize\<close> too unless it is 0: then the default of 1 GiB is
  stored in it.
\<close>

theorem Tools_after_call:
  "(UploadFiles lib t r dir rename w = (res, t', w') \<longrightarrow>
      AllowedFileTypes t' = AllowedFileTypes t \<and> MaxJSONSize t' = MaxJSONSize t \<and>
      AllowUnknownFields t' = AllowUnknownFields t \<and>
      MaxFileSize t' = (if MaxFileSize t = 0 then 1073741824 else MaxFileSize t) \<and>
      (MaxFileSize t \<noteq> 0 \<longrightarrow> t' = t)) \<and>
   (ReadJSON J t body data = (err, v, t'') \<longrightarrow> t'' = t)"
proof -
  have "t'' = t" if "ReadJSON J t body data = (err, v, t'')"
    using that
    by (auto simp: ReadJSON_def split: prod.splits sum.splits decode_error.splits)
  moreover have "AllowedFileTypes t' = AllowedFileTypes t \<and> MaxJSONSize t' = MaxJSONSize t \<and>
      AllowUnknownFields t' = AllowUnknownFields t \<and>
      MaxFileSize t' = (if MaxFileSize t = 0 then 1073741824 else MaxFileSize t) \<and>
      (MaxFileSize t \<noteq> 0 \<longrightarrow> t' = t)"
    if "UploadFiles lib t r dir rename w = (res, t', w')"
    using UploadFiles_cases(1) [OF that] by simp
  ultimately show ?thesis by blast
qed

theorem Tools_after_call_witness:
  "UploadFiles png_lib png_tools (request_of []) ''uploads'' [] srv_world =
     (Return ([], None), png_tools\<lparr>MaxFileSize := 1073741824\<rparr>, srv_world) \<and>
   AllowedFileTypes (png_tools\<lparr>MaxFileSize := 1073741824\<rparr>) = AllowedFileTypes png_tools \<and>
   ReadJSON (stream_decoder [Inr (7::nat)]) png_tools ''7'' () = (None, Some 7, png_tools)"
proof -
  have run: "UploadFiles png_lib png_tools (request_of []) ''uploads'' [] srv_world =
     (Return ([], None), png_tools\<lparr>MaxFileSize := 1073741824\<rparr>, srv_world)"
    by (simp add: fs_eval upload_eval input_eval)
  have js: "ReadJSON (stream_decoder [Inr (7::nat)]) png_tools ''7'' () = (None, Some 7, png_tools)"
    by (simp add: ReadJSON_def stream_decoder_def body_decoder_def Let_def png_tools_def)
  from Tools_after_call [of png_lib png_tools "request_of []" "''uploads''" "[]" srv_world
      "Return ([], None)" "png_tools\<lparr>MaxFileSize := 1073741824\<rparr>" srv_world
      "stream_decoder [Inr (7::nat)]" "''7''" "()" None "Some 7" png_tools] run js
  have "AllowedFileTypes (png_tools\<lparr>MaxFileSize := 1073741824\<rparr>) = AllowedFileTypes png_tools"
    by blast
  with run js show ?thesis by simp
qed

text \<open>
  C7 as the specification words it fails: a call of \<open>UploadFiles\<close> on a \<open>Tools\<close> value with
  \<open>MaxFileSize = 0\<close> leaves another value behind.
\<close>

theorem Tools_mutation_counterexample:
  "MaxFileSize png_tools = 0 \<and>
   MaxFileSize (fst (snd (UploadFiles png_lib png_tools (request_of [png_part]) ''uploads''
      [False] srv_world))) = 1073741824 \<and>
   fst (snd (UploadFiles png_lib png_tools (request_of [png_part]) ''uploads''
      [False] srv_world)) \<noteq> png_tools"
  by (simp add: fs_eval upload_eval input_eval)

text \<open>
  C3. After the first \<open>Decode\<close> has given a value, \<open>ReadJSON\<close> calls \<open>Decode\<close> again on
  what is left of the stream, and unless that call gives \<^verbatim>\<open>io.EOF\<close> it fails with the
  error \<^verbatim>\<open>body must contain only one JSON value\<close>; with \<^verbatim>\<open>io.EOF\<close> it succeeds.
\<close>

theorem ReadJSON_single_value:
  "Decode J (body_decoder J t body) data = (Inr v, dec') \<Longrightarrow>
   Decode J dec' (empty_struct J) = (second, dec'') \<Longrightarrow>
   fst (ReadJSON J t body data) =
     (if second = Inl DecEOF then None
      else Some (ErrorsNew ''body must contain only one JSON value''))"
  by (auto simp: ReadJSON_def split: sum.splits decode_error.splits)

theorem ReadJSON_single_value_witness:
  "Decode (stream_decoder [Inr (1::nat), Inr 2]) (body_decoder (stream_decoder [Inr 1, Inr 2]) png_tools ''1 2'') () =
     (Inr 1, [Inr 2]) \<and>
   fst (ReadJSON (stream_decoder [Inr (1::nat), Inr 2]) png_tools ''1 2'' ()) =
     Some (ErrorsNew ''body must contain only one JSON value'') \<and>
   fst (ReadJSON (stream_decoder [Inr (1::nat)]) png_tools ''1'' ()) = None"
proof -
  let ?J = "stream_decoder [Inr (1::nat), Inr 2]"
  let ?K = "stream_decoder [Inr (1::nat)]"
  have d1: "Decode ?J (body_decoder ?J png_tools ''1 2'') () = (Inr 1, [Inr 2])"
    by (simp add: stream_decoder_def body_decoder_def Let_def png_tools_def)
  have d2: "Decode ?J [Inr 2] (empty_struct ?J) = (Inr 2, [])"
    by (simp add: stream_decoder_def)
  have k1: "Decode ?K (body_decoder ?K png_tools ''1'') () = (Inr 1, [])"
    by (simp add: stream_decoder_def body_decoder_def Let_def png_tools_def)
  have k2: "Decode ?K [] (empty_struct ?K) = (Inl DecEOF, [])"
    by (simp add: stream_decoder_def)
  from ReadJSON_single_value [OF d1 d2] ReadJSON_single_value [OF k1 k2] d1
  show ?thesis by simp
qed

section \<open>Client file names and the destination directory\<close>

subsection \<open>Splitting and joining paths\<close>









subsection \<open>Walking the file system\<close>




lemma walk_first_dir: "walk w cur (c # cs) = Inr d \<Longrightarrow> is_dir w cur"
  by (auto split: if_splits)

lemma walk_one: "is_dir w d \<Longrightarrow> walk w d [c] = Inr (step_node d c)"
  by simp


subsection \<open>Cleaning a path\<close>











declare clean_push.simps [simp del]















subsection \<open>The names that reach the pipeline\<close>










text \<open>A part that the client names \<^verbatim>\<open>..\<close> is refused, and nothing is written.\<close>

lemma UploadFiles_dotdot_refused:
  "UploadFiles png_lib (png_tools\<lparr>AllowedFileTypes := []\<rparr>)
       (client_request (\<lambda>maxMemory. Inr [(''file'', [climbing_part\<lparr>Filename := ''a/..''\<rparr>])]))
       ''uploads'' [False] srv_world =
     (Return ([], Some (OSError EISDIR)),
      png_tools\<lparr>AllowedFileTypes := [], MaxFileSize := 1073741824\<rparr>, srv_world)"
  by (simp add: fs_eval upload_eval input_eval client_request_def multipart_readForm_def
      multipart_FileName_def filepath_Base_def clean_push.simps)



end
